theory Spec2Isabelle
  imports Main "HOL-Library.Word"
begin

unbundle bit_operations_syntax

section \<open>The digest of the crypto module: SHA-256, base64-encoded\<close>

text \<open>
  \<^verbatim>\<open>base64sha256(s)\<close> feeds the string \<open>s\<close> to \<^verbatim>\<open>crypto.createHash('sha256')\<close> and
  returns the digest in base64. The hash is the one of FIPS 180-4: 32-bit words, eight
  working variables, 64 rounds per 512-bit block. A string is the list of its UTF-8
  bytes, one \<open>char\<close> per byte.
\<close>

type_synonym w32 = "32 word"
type_synonym sha_state = "w32 \<times> w32 \<times> w32 \<times> w32 \<times> w32 \<times> w32 \<times> w32 \<times> w32"

definition K256 :: "w32 list" where
  "K256 = [
   0x428A2F98, 0x71374491, 0xB5C0FBCF, 0xE9B5DBA5, 0x3956C25B, 0x59F111F1, 0x923F82A4, 0xAB1C5ED5,
   0xD807AA98, 0x12835B01, 0x243185BE, 0x550C7DC3, 0x72BE5D74, 0x80DEB1FE, 0x9BDC06A7, 0xC19BF174,
   0xE49B69C1, 0xEFBE4786, 0x0FC19DC6, 0x240CA1CC, 0x2DE92C6F, 0x4A7484AA, 0x5CB0A9DC, 0x76F988DA,
   0x983E5152, 0xA831C66D, 0xB00327C8, 0xBF597FC7, 0xC6E00BF3, 0xD5A79147, 0x06CA6351, 0x14292967,
   0x27B70A85, 0x2E1B2138, 0x4D2C6DFC, 0x53380D13, 0x650A7354, 0x766A0ABB, 0x81C2C92E, 0x92722C85,
   0xA2BFE8A1, 0xA81A664B, 0xC24B8B70, 0xC76C51A3, 0xD192E819, 0xD6990624, 0xF40E3585, 0x106AA070,
   0x19A4C116, 0x1E376C08, 0x2748774C, 0x34B0BCB5, 0x391C0CB3, 0x4ED8AA4A, 0x5B9CCA4F, 0x682E6FF3,
   0x748F82EE, 0x78A5636F, 0x84C87814, 0x8CC70208, 0x90BEFFFA, 0xA4506CEB, 0xBEF9A3F7, 0xC67178F2]"

definition H256 :: "sha_state" where
  "H256 = (0x6A09E667, 0xBB67AE85, 0x3C6EF372, 0xA54FF53A,
           0x510E527F, 0x9B05688C, 0x1F83D9AB, 0x5BE0CD19)"

definition Ch :: "w32 \<Rightarrow> w32 \<Rightarrow> w32 \<Rightarrow> w32" where
  "Ch x y z = (x AND y) XOR (NOT x AND z)"
definition Maj :: "w32 \<Rightarrow> w32 \<Rightarrow> w32 \<Rightarrow> w32" where
  "Maj x y z = (x AND y) XOR (x AND z) XOR (y AND z)"
definition Sigma0 :: "w32 \<Rightarrow> w32" where
  "Sigma0 x = word_rotr 2 x XOR word_rotr 13 x XOR word_rotr 22 x"
definition Sigma1 :: "w32 \<Rightarrow> w32" where
  "Sigma1 x = word_rotr 6 x XOR word_rotr 11 x XOR word_rotr 25 x"
definition sigma0 :: "w32 \<Rightarrow> w32" where
  "sigma0 x = word_rotr 7 x XOR word_rotr 18 x XOR drop_bit 3 x"
definition sigma1 :: "w32 \<Rightarrow> w32" where
  "sigma1 x = word_rotr 17 x XOR word_rotr 19 x XOR drop_bit 10 x"

definition be_bytes :: "nat \<Rightarrow> int \<Rightarrow> int list" where
  "be_bytes n v = map (\<lambda>i. (v div 256 ^ i) mod 256) (rev [0..<n])"

definition sha_pad :: "int list \<Rightarrow> int list" where
  "sha_pad bs = bs @ [128] @ replicate ((119 - length bs mod 64) mod 64) 0
                 @ be_bytes 8 (8 * int (length bs))"

fun to_words :: "int list \<Rightarrow> w32 list" where
  "to_words (a # b # c # d # r) = word_of_int (((a * 256 + b) * 256 + c) * 256 + d) # to_words r"
| "to_words _ = []"

fun chunks :: "nat \<Rightarrow> 'a list \<Rightarrow> 'a list list" where
  "chunks n [] = []"
| "chunks n xs = (if n = 0 then [] else take n xs # chunks n (drop n xs))"

fun schedule :: "nat \<Rightarrow> w32 list \<Rightarrow> w32 list" where
  "schedule 0 ws = ws"
| "schedule (Suc n) ws =
     schedule n ((sigma1 (ws ! 1) + ws ! 6 + sigma0 (ws ! 14) + ws ! 15) # ws)"

definition round_step :: "sha_state \<Rightarrow> w32 \<times> w32 \<Rightarrow> sha_state" where
  "round_step st kw =
     (case st of (a, b, c, d, e, f, g, h) \<Rightarrow>
        let t1 = h + Sigma1 e + Ch e f g + fst kw + snd kw;
            t2 = Sigma0 a + Maj a b c
        in (t1 + t2, a, b, c, d + t1, e, f, g))"

definition add_state :: "sha_state \<Rightarrow> sha_state \<Rightarrow> sha_state" where
  "add_state s t =
     (case s of (a, b, c, d, e, f, g, h) \<Rightarrow>
      case t of (a', b', c', d', e', f', g', h') \<Rightarrow>
        (a + a', b + b', c + c', d + d', e + e', f + f', g + g', h + h'))"

definition compress :: "sha_state \<Rightarrow> w32 list \<Rightarrow> sha_state" where
  "compress st blk = add_state st (foldl round_step st (zip K256 (rev (schedule 48 (rev blk)))))"

definition state_words :: "sha_state \<Rightarrow> w32 list" where
  "state_words s = (case s of (a, b, c, d, e, f, g, h) \<Rightarrow> [a, b, c, d, e, f, g, h])"

definition sha256 :: "int list \<Rightarrow> sha_state" where
  "sha256 bs = foldl compress H256 (chunks 16 (to_words (sha_pad bs)))"

definition word_bytes :: "w32 \<Rightarrow> int list" where
  "word_bytes w = be_bytes 4 (uint w)"

definition b64chars :: string where
  "b64chars = ''ABCDEFGHIJKLMNOPQRSTUVWXYZabcdefghijklmnopqrstuvwxyz0123456789+/''"

definition b64 :: "int \<Rightarrow> char" where
  "b64 i = b64chars ! nat i"

fun base64 :: "int list \<Rightarrow> string" where
  "base64 (a # b # c # r) =
     [b64 (a div 4), b64 ((a mod 4) * 16 + b div 16),
      b64 ((b mod 16) * 4 + c div 64), b64 (c mod 64)] @ base64 r"
| "base64 [a, b] =
     [b64 (a div 4), b64 ((a mod 4) * 16 + b div 16),
      b64 ((b mod 16) * 4), CHR ''='']"
| "base64 [a] = [b64 (a div 4), b64 ((a mod 4) * 16), CHR ''='', CHR ''='']"
| "base64 [] = []"

definition base64sha256 :: "string \<Rightarrow> string" where
  "base64sha256 s = base64 (concat (map word_bytes (state_words (sha256 (map of_char s)))))"

section \<open>JavaScript values and \<^verbatim>\<open>JSON.stringify\<close>\<close>

text \<open>
  The descriptor \<^verbatim>\<open>eventContentFile\<close> is an arbitrary JavaScript value: \<^verbatim>\<open>undefined\<close>
  when the caller passes none, otherwise (in the Matrix protocol) an object with a
  \<^verbatim>\<open>url\<close>, a \<^verbatim>\<open>key\<close>, an \<^verbatim>\<open>iv\<close> and \<^verbatim>\<open>hashes\<close>. An object is the list of its own
  enumerable properties in enumeration order. Numbers are not modelled.
\<close>

datatype jsval =
    JUndefined
  | JNull
  | JBool bool
  | JStr string
  | JArr "jsval list"
  | JObj "(string \<times> jsval) list"

text \<open>\<^verbatim>\<open>if (v)\<close>: the falsy values are \<^verbatim>\<open>undefined\<close>, \<^verbatim>\<open>null\<close>, \<^verbatim>\<open>false\<close> and \<^verbatim>\<open>""\<close>.\<close>

fun truthy :: "jsval \<Rightarrow> bool" where
  "truthy JUndefined = False"
| "truthy JNull = False"
| "truthy (JBool b) = b"
| "truthy (JStr s) = (s \<noteq> [])"
| "truthy (JArr xs) = True"
| "truthy (JObj ps) = True"

text \<open>\<^verbatim>\<open>v.name\<close> on a value that is not \<^verbatim>\<open>undefined\<close> or \<^verbatim>\<open>null\<close>: the property, or
  \<^verbatim>\<open>undefined\<close> when there is none (strings, booleans and arrays have no property of
  the names the program reads).\<close>

fun get_prop :: "jsval \<Rightarrow> string \<Rightarrow> jsval" where
  "get_prop (JObj ps) name = (case map_of ps name of Some v \<Rightarrow> v | None \<Rightarrow> JUndefined)"
| "get_prop v name = JUndefined"

text \<open>
  \<^verbatim>\<open>QuoteJSONString\<close> of ECMAScript: the quote and the backslash are escaped with a
  backslash, the control characters below 0x20 as \<^verbatim>\<open>\b \t \n \f \r\<close> or
  \<^verbatim>\<open>\u00XX\<close> with lower-case hexadecimal digits, every other character stands for itself.
\<close>

definition hex_digit :: "nat \<Rightarrow> char" where
  "hex_digit n = ''0123456789abcdef'' ! n"

definition quote_char :: "char \<Rightarrow> string" where
  "quote_char c =
     (if c = CHR 0x22 then [CHR 0x5C, CHR 0x22]
      else if c = CHR 0x5C then [CHR 0x5C, CHR 0x5C]
      else if c = CHR 0x08 then [CHR 0x5C, CHR ''b'']
      else if c = CHR 0x09 then [CHR 0x5C, CHR ''t'']
      else if c = CHR 0x0A then [CHR 0x5C, CHR ''n'']
      else if c = CHR 0x0C then [CHR 0x5C, CHR ''f'']
      else if c = CHR 0x0D then [CHR 0x5C, CHR ''r'']
      else if (of_char c :: nat) < 32
        then [CHR 0x5C, CHR ''u'', CHR ''0'', CHR ''0'',
              hex_digit (of_char c div 16), hex_digit (of_char c mod 16)]
      else [c])"

definition quote :: "string \<Rightarrow> string" where
  "quote s = CHR 0x22 # concat (map quote_char s) @ [CHR 0x22]"

text \<open>The members of an array or object, separated by commas.\<close>

fun commas :: "string list \<Rightarrow> string" where
  "commas [] = []"
| "commas [s] = s"
| "commas (s # t # ts) = s @ '','' @ commas (t # ts)"

text \<open>
  \<^verbatim>\<open>JSON.stringify(v)\<close> without indentation: \<open>None\<close> is the result \<^verbatim>\<open>undefined\<close>.
  A property whose value serialises to \<^verbatim>\<open>undefined\<close> is left out of its object; such
  an element of an array is written \<^verbatim>\<open>null\<close>.
\<close>

fun stringify :: "jsval \<Rightarrow> string option"
  and elems :: "jsval list \<Rightarrow> string list"
  and props :: "(string \<times> jsval) list \<Rightarrow> string list" where
  "stringify JUndefined = None"
| "stringify JNull = Some ''null''"
| "stringify (JBool b) = Some (if b then ''true'' else ''false'')"
| "stringify (JStr s) = Some (quote s)"
| "stringify (JArr xs) = Some (''['' @ commas (elems xs) @ '']'')"
| "stringify (JObj ps) = Some (''{'' @ commas (props ps) @ ''}'')"
| "elems [] = []"
| "elems (x # xs) = (case stringify x of None \<Rightarrow> ''null'' | Some s \<Rightarrow> s) # elems xs"
| "props [] = []"
| "props (p # ps) =
     (case stringify (snd p) of
        None \<Rightarrow> props ps
      | Some s \<Rightarrow> (quote (fst p) @ '':'' @ s) # props ps)"

definition stringify_object :: "(string \<times> jsval) list \<Rightarrow> string" where
  "stringify_object ps = ''{'' @ commas (props ps) @ ''}''"

section \<open>Result keys\<close>

text \<open>\<^verbatim>\<open>generateResultHash(httpUrl, eventContentFile)\<close>: the digest of the JSON text of
  \<^verbatim>\<open>{ httpUrl, eventContentFile }\<close>.\<close>

definition hash_input :: "string \<Rightarrow> jsval \<Rightarrow> string" where
  "hash_input httpUrl eventContentFile =
     stringify_object [(''httpUrl'', JStr httpUrl), (''eventContentFile'', eventContentFile)]"

definition generateResultHash :: "string \<Rightarrow> jsval \<Rightarrow> string" where
  "generateResultHash httpUrl eventContentFile = base64sha256 (hash_input httpUrl eventContentFile)"

text \<open>A template literal prints \<^verbatim>\<open>undefined\<close> for a value that is undefined.\<close>

fun template :: "string option \<Rightarrow> string" where
  "template None = ''undefined''"
| "template (Some s) = s"

definition generateHttpUrl :: "string option \<Rightarrow> string option \<Rightarrow> string option \<Rightarrow> string" where
  "generateHttpUrl baseUrl domain mediaId =
     template baseUrl @ ''/_matrix/media/v1/download/'' @ template domain @ ''/'' @ template mediaId"

text \<open>\<^verbatim>\<open>s.split('/')\<close>: the pieces between the separators, at least one.\<close>

fun split :: "char \<Rightarrow> string \<Rightarrow> string list" where
  "split sep [] = [[]]"
| "split sep (c # cs) =
     (if c = sep then [] # split sep cs
      else (case split sep cs of [] \<Rightarrow> [[c]] | p # ps \<Rightarrow> (c # p) # ps))"

text \<open>\<^verbatim>\<open>xs.slice(-2)\<close>: the last two elements, or all of them when there are fewer.\<close>

definition slice_last2 :: "'a list \<Rightarrow> 'a list" where
  "slice_last2 xs = drop (length xs - 2) xs"

text \<open>\<^verbatim>\<open>xs[i]\<close> of an array: \<^verbatim>\<open>undefined\<close> out of range.\<close>

definition at_index :: "'a list \<Rightarrow> nat \<Rightarrow> 'a option" where
  "at_index xs i = (if i < length xs then Some (xs ! i) else None)"

text \<open>
  Modelled from the spec: \<^verbatim>\<open>client-error.js\<close> is not among the sources; a client error
  is "a typed client error carrying an HTTP-style status code and message". The other
  errors are \<^verbatim>\<open>new Error(message)\<close>, the TypeError of the language, and an error object
  of a collaborator with its \<^verbatim>\<open>statusCode\<close> property (if it has one) and its message.
\<close>

datatype js_error =
    ClientError nat string
  | Error string
  | TypeError
  | External "nat option" string

text \<open>
  The statement shared by \<^verbatim>\<open>getReport\<close>, \<^verbatim>\<open>getInputHash\<close> and \<^verbatim>\<open>_generateReport\<close>:
  \<^verbatim>\<open>if (eventContentFile) { [domain, mediaId] = eventContentFile.url.split('/').slice(-2); }\<close>
  A truthy descriptor whose \<^verbatim>\<open>url\<close> is not a string has no \<^verbatim>\<open>split\<close> method: a TypeError.
\<close>

definition media_of_descriptor ::
  "jsval \<Rightarrow> string option \<Rightarrow> string option \<Rightarrow> js_error + (string option \<times> string option)" where
  "media_of_descriptor eventContentFile domain mediaId =
     (if truthy eventContentFile then
        (case get_prop eventContentFile ''url'' of
           JStr url \<Rightarrow>
             (let parts = slice_last2 (split CHR ''/'' url)
              in Inr (at_index parts 0, at_index parts 1))
         | _ \<Rightarrow> Inl TypeError)
      else Inr (domain, mediaId))"

record opts =
  baseUrl :: "string option"
  tempDirectory :: "string option"
  script :: "string option"

definition getInputHash :: "string option \<Rightarrow> string option \<Rightarrow> jsval \<Rightarrow> opts \<Rightarrow> js_error + string" where
  "getInputHash domain mediaId eventContentFile opts =
     (case media_of_descriptor eventContentFile domain mediaId of
        Inl e \<Rightarrow> Inl e
      | Inr (domain', mediaId') \<Rightarrow>
          Inr (generateResultHash (generateHttpUrl (baseUrl opts) domain' mediaId') eventContentFile))"

section \<open>The state of the process and of its surroundings\<close>

text \<open>
  A scan result is a JavaScript object: \<^verbatim>\<open>executeCommand\<close> creates it with the fields
  \<^verbatim>\<open>clean\<close>, \<^verbatim>\<open>info\<close> and \<^verbatim>\<open>exitCode\<close>, and \<^verbatim>\<open>_generateReport\<close> assigns
  \<^verbatim>\<open>filePath\<close> and \<^verbatim>\<open>headers\<close> to it. The result cache holds references to such
  objects, so the objects live in a store (\<open>heap\<close>, addressed by position) and
  \<open>resultCache\<close> maps a key to an address. The keys of \<^verbatim>\<open>resultCache\<close> (and of
  \<^verbatim>\<open>ongoing\<close> below) are base64 digests, 44 characters ending in \<^verbatim>\<open>=\<close>: none is the
  name of a property that a plain object inherits, so a lookup finds stored entries only.
\<close>

type_synonym headers = "(string \<times> string) list"

record scan_result =
  clean :: bool
  info :: string
  exitCode :: int
  filePath :: "string option"
  headers :: "headers option"

text \<open>What the process does to its surroundings, in order.\<close>

datatype event =
    ConsoleInfo
  | ConsoleError
  | Mkdtemp string
  | Rimraf string
  | HttpGet string string
  | DecryptFile string string
  | ExecuteCommand string
  | ResSet "(string \<times> string option) list"
  | ResSendFile "string option"

record world =
  resultCache :: "string \<rightharpoonup> nat"
  heap :: "scan_result list"
  dirs :: "string list"
  trace :: "event list"

definition emit :: "event list \<Rightarrow> world \<Rightarrow> world" where
  "emit evs w = w\<lparr>trace := trace w @ evs\<rparr>"

text \<open>
  Modelled from the spec: \<^verbatim>\<open>execute-cmd.js\<close> and \<^verbatim>\<open>decrypt-file.js\<close> are not among the
  sources; \<^verbatim>\<open>decrypt(inputPath, outputPath, descriptor)\<close> returns nothing or throws, and
  \<^verbatim>\<open>execute(commandString)\<close> yields an object with \<^verbatim>\<open>clean\<close>, \<^verbatim>\<open>info\<close> and
  \<^verbatim>\<open>exitCode\<close>. What they, the file system and the HTTP client answer is not decided by
  this module, so it is a parameter of every operation.

  The answers of the surroundings to one invocation, each asked for at most once:
  \<^item> \<open>mkdtemp_r\<close>: \<^verbatim>\<open>fs.promises.mkdtemp\<close> fails, or creates the directory named by the
    prefix and the random characters it returns;
  \<^item> \<open>fetch_r\<close>: the download emits \<^verbatim>\<open>error\<close> with an error object (its
    \<^verbatim>\<open>statusCode\<close>, if it has one, and its message), or ends with the response headers;
  \<^item> \<open>decrypt_r\<close>: \<^verbatim>\<open>decryptFile\<close> throws, or returns;
  \<^item> \<open>exec_r\<close>: \<^verbatim>\<open>executeCommand\<close> rejects, or resolves to \<^verbatim>\<open>{clean, info, exitCode}\<close>;
  \<^item> \<open>rimraf_r\<close>: \<^verbatim>\<open>rimraf\<close> calls back with an error, or without.
\<close>

record responses =
  mkdtemp_r :: "js_error + string"
  fetch_r :: "(nat option \<times> string) + headers"
  decrypt_r :: "js_error option"
  exec_r :: "js_error + (bool \<times> string \<times> int)"
  rimraf_r :: "js_error option"

text \<open>\<^verbatim>\<open>path.join(dir, name)\<close> for a file name without separators (POSIX; the
  normalisation of \<open>dir\<close> is not modelled).\<close>

definition path_join :: "string \<Rightarrow> string \<Rightarrow> string" where
  "path_join dir name = dir @ ''/'' @ name"

section \<open>The operations of reporting.js\<close>


text \<open>The object \<^verbatim>\<open>getReport\<close> returns: \<^verbatim>\<open>{ scanned: false }\<close> or
  \<^verbatim>\<open>{ clean, scanned: true, info }\<close>.\<close>

datatype report = NotScanned | Scanned bool string

definition getReport ::
  "string option \<Rightarrow> string option \<Rightarrow> jsval \<Rightarrow> opts \<Rightarrow> world \<Rightarrow> (js_error + report) \<times> world" where
  "getReport domain mediaId eventContentFile opts w =
     (case media_of_descriptor eventContentFile domain mediaId of
        Inl e \<Rightarrow> (Inl e, w)
      | Inr (domain', mediaId') \<Rightarrow>
          (let httpUrl = generateHttpUrl (baseUrl opts) domain' mediaId';
               resultSecret = generateResultHash httpUrl eventContentFile
           in case resultCache w resultSecret of
                None \<Rightarrow> (Inr NotScanned, emit [ConsoleInfo] w)
              | Some a \<Rightarrow>
                  (Inr (Scanned (clean (heap w ! a)) (info (heap w ! a))), emit [ConsoleInfo] w)))"

text \<open>The end of \<^verbatim>\<open>generateResult\<close>: run the scanner on \<open>path\<close>, store the result
  object in the cache, return it.\<close>

definition scan_and_cache ::
  "string \<Rightarrow> string \<Rightarrow> string \<Rightarrow> responses \<Rightarrow> world \<Rightarrow> (js_error + nat) \<times> world" where
  "scan_and_cache resultSecret script' path rs w =
     (let cmd = script' @ '' '' @ path;
          w1 = emit [ConsoleInfo, ExecuteCommand cmd] w
      in case exec_r rs of
           Inl e \<Rightarrow> (Inl e, w1)
         | Inr (c, i, x) \<Rightarrow>
             (let a = length (heap w1);
                  result = \<lparr>clean = c, info = i, exitCode = x, filePath = None, headers = None\<rparr>
              in (Inr a, w1\<lparr>heap := heap w1 @ [result],
                             resultCache := (resultCache w1)(resultSecret \<mapsto> a)\<rparr>)))"

definition generateResult ::
  "string \<Rightarrow> jsval \<Rightarrow> string \<Rightarrow> string \<Rightarrow> string \<Rightarrow> responses \<Rightarrow> world
     \<Rightarrow> (js_error + nat) \<times> world" where
  "generateResult httpUrl eventContentFile filePath' tempDir script' rs w =
     (let resultSecret = generateResultHash httpUrl eventContentFile
      in case resultCache w resultSecret of
           Some a \<Rightarrow> (Inr a, emit [ConsoleInfo] w)
         | None \<Rightarrow>
             if truthy eventContentFile \<and> truthy (get_prop eventContentFile ''key'') then
               (let decryptedFilePath = path_join tempDir ''unsafeDownloadedDecryptedFile'';
                    w1 = emit [ConsoleInfo, DecryptFile filePath' decryptedFilePath] w
                in case decrypt_r rs of
                     Some err \<Rightarrow>
                       (Inl (ClientError 400 ''Failed to decrypt file''), emit [ConsoleError] w1)
                   | None \<Rightarrow> scan_and_cache resultSecret script' decryptedFilePath rs w1)
             else scan_and_cache resultSecret script' filePath' rs w)"

text \<open>\<^verbatim>\<open>!err.statusCode\<close>: an error without a status code, or with the status code 0.\<close>

definition no_statusCode :: "nat option \<Rightarrow> bool" where
  "no_statusCode sc = (case sc of None \<Rightarrow> True | Some c \<Rightarrow> c = 0)"

text \<open>\<^verbatim>\<open>result.filePath = filePath; result.headers = downloadHeaders;\<close> on the object at
  address \<open>a\<close>.\<close>

definition set_delivery :: "nat \<Rightarrow> string \<Rightarrow> headers \<Rightarrow> world \<Rightarrow> world" where
  "set_delivery a fp hs w =
     w\<lparr>heap := (heap w)[a := (heap w ! a)\<lparr>filePath := Some fp, headers := Some hs\<rparr>]\<rparr>"

text \<open>
  \<^verbatim>\<open>_generateReport\<close>, run from its call to its settlement. The source assigns the
  awaited result to \<^verbatim>\<open>result\<close>, a variable it never declares (a global of the module
  in sloppy mode); nothing is awaited between that assignment and the \<^verbatim>\<open>return\<close>, so
  the variable holds the object of this invocation throughout.
\<close>

definition underscore_generateReport ::
  "string option \<Rightarrow> string option \<Rightarrow> jsval \<Rightarrow> opts \<Rightarrow> responses \<Rightarrow> world
     \<Rightarrow> (js_error + nat) \<times> world" where
  "underscore_generateReport domain mediaId eventContentFile opts rs w =
     (case (baseUrl opts, tempDirectory opts, script opts) of
        (Some baseUrl', Some tempDir, Some script') \<Rightarrow>
          (case media_of_descriptor eventContentFile domain mediaId of
             Inl e \<Rightarrow> (Inl e, w)
           | Inr (domain', mediaId') \<Rightarrow>
               (let httpUrl = generateHttpUrl (Some baseUrl') domain' mediaId';
                    filePath' = path_join tempDir ''downloadedFile'';
                    w1 = emit [ConsoleInfo, HttpGet httpUrl filePath'] w
                in case fetch_r rs of
                     Inl (statusCode, msg) \<Rightarrow>
                       if no_statusCode statusCode then (Inl (External statusCode msg), w1)
                       else (Inl (ClientError 502 ''Failed to get requested URL''),
                             emit [ConsoleError] w1)
                   | Inr downloadHeaders \<Rightarrow>
                       (case generateResult httpUrl eventContentFile filePath' tempDir script' rs w1 of
                          (Inl e, w2) \<Rightarrow> (Inl e, w2)
                        | (Inr a, w2) \<Rightarrow>
                            (Inr a, set_delivery a filePath' downloadHeaders (emit [ConsoleInfo] w2)))))
      | _ \<Rightarrow> (Inl (Error ''Expected baseUrl, tempDirectory and script in opts''), w))"

text \<open>
  \<^verbatim>\<open>generateReport = deduplicatePromises(getInputHash, _generateReport)\<close>, called while no
  execution is registered under the key of its arguments (as when calls do not overlap):
  the key is computed, then \<^verbatim>\<open>_generateReport\<close> runs. Overlapping calls are the subject
  of the section on \<^verbatim>\<open>deduplicatePromises\<close> below.
\<close>

definition generateReport ::
  "string option \<Rightarrow> string option \<Rightarrow> jsval \<Rightarrow> opts \<Rightarrow> responses \<Rightarrow> world
     \<Rightarrow> (js_error + nat) \<times> world" where
  "generateReport domain mediaId eventContentFile opts rs w =
     (case getInputHash domain mediaId eventContentFile opts of
        Inl e \<Rightarrow> (Inl e, w)
      | Inr k \<Rightarrow> underscore_generateReport domain mediaId eventContentFile opts rs w)"

text \<open>
  \<^verbatim>\<open>withTempDir(asyncFn)\<close>: \<open>asyncFn\<close> is given the options (the last argument of the
  wrapped function) with \<^verbatim>\<open>tempDirectory\<close> replaced by the directory created. The
  \<^verbatim>\<open>finally\<close> block awaits \<^verbatim>\<open>rimraf\<close>; when that promise is rejected the block
  completes abruptly and its error replaces the outcome of the \<^verbatim>\<open>try\<close> block.
\<close>

definition withTempDir ::
  "(opts \<Rightarrow> responses \<Rightarrow> world \<Rightarrow> (js_error + 'a) \<times> world)
     \<Rightarrow> opts \<Rightarrow> responses \<Rightarrow> world \<Rightarrow> (js_error + 'a) \<times> world" where
  "withTempDir asyncFn opts rs w =
     (let prefix = template (tempDirectory opts) @ ''/av-'';
          w0 = emit [Mkdtemp prefix] w
      in case mkdtemp_r rs of
           Inl e \<Rightarrow> (Inl e, w0)
         | Inr random \<Rightarrow>
             (let tempDir = prefix @ random;
                  w1 = w0\<lparr>dirs := tempDir # dirs w0\<rparr>;
                  (result, w2) = asyncFn (opts\<lparr>tempDirectory := Some tempDir\<rparr>) rs w1;
                  w3 = emit [Rimraf tempDir] w2
              in case rimraf_r rs of
                   Some err \<Rightarrow> (Inl err, w3)
                 | None \<Rightarrow> (result, w3\<lparr>dirs := removeAll tempDir (dirs w3)\<rparr>)))"

definition headerWhitelist :: "string list" where
  "headerWhitelist = [''content-type'', ''content-disposition'', ''content-security-policy'']"

text \<open>The function that \<^verbatim>\<open>scannedDownload\<close> wraps. Reading a property of headers that
  are \<^verbatim>\<open>undefined\<close> is a TypeError.\<close>

definition scannedDownload_body ::
  "string option \<Rightarrow> string option \<Rightarrow> jsval \<Rightarrow> opts \<Rightarrow> responses \<Rightarrow> world
     \<Rightarrow> (js_error + unit) \<times> world" where
  "scannedDownload_body domain mediaId eventContentFile opts rs w =
     (case generateReport domain mediaId eventContentFile opts rs w of
        (Inl e, w1) \<Rightarrow> (Inl e, w1)
      | (Inr a, w1) \<Rightarrow>
          (let r = heap w1 ! a
           in if \<not> clean r then (Inl (ClientError 403 (info r)), w1)
              else (case headers r of
                      None \<Rightarrow> (Inl TypeError, emit [ConsoleInfo] w1)
                    | Some hs \<Rightarrow>
                        (Inr (), emit [ConsoleInfo,
                                       ResSet (map (\<lambda>headerKey. (headerKey, map_of hs headerKey))
                                                 headerWhitelist),
                                       ResSendFile (filePath r)] w1))))"

definition scannedDownload ::
  "string option \<Rightarrow> string option \<Rightarrow> jsval \<Rightarrow> opts \<Rightarrow> responses \<Rightarrow> world
     \<Rightarrow> (js_error + unit) \<times> world" where
  "scannedDownload domain mediaId eventContentFile =
     withTempDir (scannedDownload_body domain mediaId eventContentFile)"

text \<open>All three options are there: the check at the head of \<^verbatim>\<open>_generateReport\<close> passes.\<close>

definition configured :: "opts \<Rightarrow> bool" where
  "configured opts \<longleftrightarrow>
     baseUrl opts \<noteq> None \<and> tempDirectory opts \<noteq> None \<and> script opts \<noteq> None"


section \<open>The exported operations as data\<close>








section \<open>\<^verbatim>\<open>deduplicatePromises\<close>: overlapping calls\<close>

text \<open>
  The wrapper keeps \<^verbatim>\<open>ongoing\<close>, an object from keys to promises. A call computes the
  key of its arguments (and is rejected when \<^verbatim>\<open>getKey\<close> throws); when nothing is
  registered under the key it calls \<^verbatim>\<open>asyncFn\<close> and registers
  \<^verbatim>\<open>asyncFn(...args).finally(() => delete ongoing[k])\<close>; then it awaits the promise
  registered under the key. JavaScript runs one callback at a time, so the wrapper is a
  transition system with three kinds of steps: a call, the settlement of the promise of
  an execution of \<^verbatim>\<open>asyncFn\<close> (with an outcome that the execution decides), and the
  run of the \<^verbatim>\<open>finally\<close> callback of a settled execution, which deletes the key and
  settles the registered promise with the same outcome. An execution is named by its
  position in \<open>executions\<close>; \<open>awaited\<close> lists, call by call, what the call awaits: the
  error of \<^verbatim>\<open>getKey\<close>, or the execution whose promise was registered under the key.
\<close>

datatype 'r phase = Running | Settled 'r | Finished 'r

record ('a, 'r) execution =
  exec_key :: string
  exec_args :: 'a
  phase :: "'r phase"

record ('a, 'r) coalescer =
  ongoing :: "string \<rightharpoonup> nat"
  executions :: "('a, 'r) execution list"
  awaited :: "(js_error + nat) list"

datatype ('a, 'r) step = Call 'a | Settle nat 'r | Finally nat

definition set_phase :: "nat \<Rightarrow> 'r phase \<Rightarrow> ('a, 'r) coalescer \<Rightarrow> ('a, 'r) coalescer" where
  "set_phase i p c = c\<lparr>executions := (executions c)[i := (executions c ! i)\<lparr>phase := p\<rparr>]\<rparr>"

fun deduplicatePromises ::
  "('a \<Rightarrow> js_error + string) \<Rightarrow> ('a, 'r) step \<Rightarrow> ('a, 'r) coalescer \<Rightarrow> ('a, 'r) coalescer" where
  "deduplicatePromises getKey (Call args) c =
     (case getKey args of
        Inl e \<Rightarrow> c\<lparr>awaited := awaited c @ [Inl e]\<rparr>
      | Inr k \<Rightarrow>
          (case ongoing c k of
             None \<Rightarrow>
               c\<lparr>executions := executions c @ [\<lparr>exec_key = k, exec_args = args, phase = Running\<rparr>],
                 ongoing := (ongoing c)(k \<mapsto> length (executions c)),
                 awaited := awaited c @ [Inr (length (executions c))]\<rparr>
           | Some i \<Rightarrow> c\<lparr>awaited := awaited c @ [Inr i]\<rparr>))"
| "deduplicatePromises getKey (Settle i r) c =
     (if i < length (executions c) \<and> phase (executions c ! i) = Running
      then set_phase i (Settled r) c else c)"
| "deduplicatePromises getKey (Finally i) c =
     (if i < length (executions c) then
        (case phase (executions c ! i) of
           Settled r \<Rightarrow>
             (set_phase i (Finished r) c)
               \<lparr>ongoing := (ongoing c)(exec_key (executions c ! i) := None)\<rparr>
         | _ \<Rightarrow> c)
      else c)"

definition run_steps ::
  "('a \<Rightarrow> js_error + string) \<Rightarrow> ('a, 'r) step list \<Rightarrow> ('a, 'r) coalescer \<Rightarrow> ('a, 'r) coalescer" where
  "run_steps getKey steps c = foldl (\<lambda>c s. deduplicatePromises getKey s c) c steps"

text \<open>The wrapper as \<^verbatim>\<open>deduplicatePromises\<close> returns it: \<^verbatim>\<open>ongoing = {}\<close>.\<close>

definition idle :: "('a, 'r) coalescer" where
  "idle = \<lparr>ongoing = Map.empty, executions = [], awaited = []\<rparr>"

text \<open>The \<^verbatim>\<open>finally\<close> callback of the execution has run.\<close>

definition finished :: "('a, 'r) execution \<Rightarrow> bool" where
  "finished e = (case phase e of Finished r \<Rightarrow> True | _ \<Rightarrow> False)"

text \<open>The executions under a key whose promise is pending.\<close>

definition in_flight :: "('a, 'r) coalescer \<Rightarrow> string \<Rightarrow> nat list" where
  "in_flight c k =
     filter (\<lambda>i. exec_key (executions c ! i) = k \<and> phase (executions c ! i) = Running)
       [0..<length (executions c)]"

text \<open>What the \<open>n\<close>-th call has got from \<^verbatim>\<open>await ongoing[k]\<close>, if anything yet.\<close>

definition outcome_of_call :: "('a, js_error + 'v) coalescer \<Rightarrow> nat \<Rightarrow> (js_error + 'v) option" where
  "outcome_of_call c n =
     (case awaited c ! n of
        Inl e \<Rightarrow> Some (Inl e)
      | Inr i \<Rightarrow> (case phase (executions c ! i) of Finished r \<Rightarrow> Some r | _ \<Rightarrow> None))"

text \<open>\<^verbatim>\<open>ongoing\<close> holds exactly the executions whose callback has not run, each under its key.\<close>

definition registry_ok :: "('a, 'r) coalescer \<Rightarrow> bool" where
  "registry_ok c \<longleftrightarrow>
     (\<forall>k i. ongoing c k = Some i \<longrightarrow>
        i < length (executions c) \<and> exec_key (executions c ! i) = k \<and>
        \<not> finished (executions c ! i)) \<and>
     (\<forall>i < length (executions c).
        \<not> finished (executions c ! i) \<longrightarrow> ongoing c (exec_key (executions c ! i)) = Some i)"

text \<open>\<^verbatim>\<open>generateReport = deduplicatePromises(getInputHash, _generateReport)\<close>: the key of the
  arguments (the console, which \<^verbatim>\<open>getInputHash\<close> ignores, is left out).\<close>

type_synonym report_args = "string option \<times> string option \<times> jsval \<times> opts"

definition generateReport_key :: "report_args \<Rightarrow> js_error + string" where
  "generateReport_key args =
     (case args of (domain, mediaId, eventContentFile, opts) \<Rightarrow>
        getInputHash domain mediaId eventContentFile opts)"

section \<open>JSON values and collisions of the digest\<close>







section \<open>Example inputs\<close>

definition empty_world :: world where
  "empty_world = \<lparr>resultCache = Map.empty, heap = [], dirs = [], trace = []\<rparr>"

definition example_opts :: opts where
  "example_opts =
     \<lparr>baseUrl = Some ''https://hs'', tempDirectory = Some ''/tmp'', script = Some ''scan.sh''\<rparr>"

definition example_key :: string where
  "example_key =
     generateResultHash ''https://hs/_matrix/media/v1/download/example.org/abc123'' JUndefined"

definition scanned_world :: world where
  "scanned_world =
     \<lparr>resultCache = [example_key \<mapsto> 0],
      heap = [\<lparr>clean = False, info = ''Eicar'', exitCode = 1, filePath = None, headers = None\<rparr>],
      dirs = [], trace = []\<rparr>"

definition example_responses :: responses where
  "example_responses =
     \<lparr>mkdtemp_r = Inr ''Xk3p9Q'', fetch_r = Inr [(''content-type'', ''image/png'')],
      decrypt_r = None, exec_r = Inr (True, ''ok'', 0), rimraf_r = None\<rparr>"

definition example_descriptor :: jsval where
  "example_descriptor =
     JObj [(''url'', JStr ''mxc://example.org/abc123''),
           (''key'', JObj [(''k'', JStr ''c2VjcmV0'')]),
           (''iv'', JStr ''aXY'')]"

definition example_descriptor_key :: string where
  "example_descriptor_key =
     generateResultHash ''https://hs/_matrix/media/v1/download/example.org/abc123''
       example_descriptor"

definition first_scan_world :: world where
  "first_scan_world =
     snd (generateReport (Some ''example.org'') (Some ''abc123'') JUndefined example_opts
            example_responses empty_world)"




definition workspace_opts :: opts where
  "workspace_opts = example_opts\<lparr>tempDirectory := Some ''/tmp/av-Xk3p9Q''\<rparr>"

definition workspace_world :: world where
  "workspace_world = (emit [Mkdtemp ''/tmp/av-''] empty_world)\<lparr>dirs := [''/tmp/av-Xk3p9Q'']\<rparr>"

definition delivered_world :: world where
  "delivered_world =
     snd (scannedDownload_body (Some ''example.org'') (Some ''abc123'') JUndefined workspace_opts
            example_responses workspace_world)"

definition rimraf_failure :: responses where
  "rimraf_failure = example_responses\<lparr>rimraf_r := Some (External None ''EBUSY'')\<rparr>"

definition example_args :: report_args where
  "example_args = (Some ''example.org'', Some ''abc123'', JUndefined, example_opts)"

definition one_settled :: "(report_args, js_error + nat) coalescer" where
  "one_settled =
     run_steps generateReport_key [Call example_args, Call example_args, Settle 0 (Inr 0)] idle"





chapter \<open>Properties\<close>

section \<open>Basic facts\<close>

lemmas pipeline_defs = generateReport_def underscore_generateReport_def generateResult_def
  scan_and_cache_def set_delivery_def emit_def getInputHash_def configured_def

lemma emit_sel [simp]:
  "resultCache (emit evs w) = resultCache w" "heap (emit evs w) = heap w"
  "dirs (emit evs w) = dirs w" "trace (emit evs w) = trace w @ evs"
  by (simp_all add: emit_def)

lemma set_delivery_sel [simp]:
  "resultCache (set_delivery a fp hs w) = resultCache w"
  "length (heap (set_delivery a fp hs w)) = length (heap w)"
  "dirs (set_delivery a fp hs w) = dirs w" "trace (set_delivery a fp hs w) = trace w"
  by (simp_all add: set_delivery_def)

lemma example_configured: "configured example_opts"
  by (simp add: configured_def example_opts_def)

lemma example_descriptor_getInputHash:
  "getInputHash None None example_descriptor example_opts = Inr example_descriptor_key"
  by (simp add: getInputHash_def media_of_descriptor_def generateHttpUrl_def slice_last2_def
                at_index_def example_opts_def example_descriptor_key_def example_descriptor_def)



lemma example_getInputHash:
  "getInputHash (Some ''example.org'') (Some ''abc123'') JUndefined example_opts = Inr example_key"
  by (simp add: getInputHash_def media_of_descriptor_def generateHttpUrl_def
                example_opts_def example_key_def)

section \<open>Cache-only reads\<close>

text \<open>
  C3. \<^verbatim>\<open>getReport\<close> is a pure cache lookup. Whenever its arguments derive a key \<open>k\<close>:
  with no entry under \<open>k\<close> it returns \<^verbatim>\<open>{scanned: false}\<close>, with an entry it returns
  \<^verbatim>\<open>{scanned: true, clean, info}\<close> read from the stored object; and all it does to the
  state is one \<^verbatim>\<open>console.info\<close>: no directory, no download, no decryption, no scanner,
  no change of the cache or of a stored object.
\<close>

theorem getReport_cache_only:
  assumes "getInputHash domain mediaId eventContentFile opts = Inr k"
  shows "getReport domain mediaId eventContentFile opts w =
           ((case resultCache w k of
               None \<Rightarrow> Inr NotScanned
             | Some a \<Rightarrow> Inr (Scanned (clean (heap w ! a)) (info (heap w ! a)))),
            w\<lparr>trace := trace w @ [ConsoleInfo]\<rparr>)"
  using assms
  by (auto simp: getReport_def getInputHash_def emit_def Let_def
           split: sum.splits option.splits prod.splits)

theorem getReport_cache_only_witness:
  "getReport (Some ''example.org'') (Some ''abc123'') JUndefined example_opts empty_world
     = (Inr NotScanned, empty_world\<lparr>trace := [ConsoleInfo]\<rparr>) \<and>
   getReport (Some ''example.org'') (Some ''abc123'') JUndefined example_opts scanned_world
     = (Inr (Scanned False ''Eicar''), scanned_world\<lparr>trace := [ConsoleInfo]\<rparr>)"
  using getReport_cache_only [OF example_getInputHash, of empty_world]
        getReport_cache_only [OF example_getInputHash, of scanned_world]
  by (simp add: empty_world_def scanned_world_def)

section \<open>Failures of the download and of the decryption\<close>

text \<open>
  C6. When the download fails in a pipeline invocation (the options are complete and the
  arguments derive a key, so the download is started): an error with a status code makes
  \<^verbatim>\<open>generateReport\<close> fail with the client error 502, an error without one (or with
  the status code 0, which \<^verbatim>\<open>!err.statusCode\<close> does not tell from a missing one and
  which is no HTTP status) is rethrown as it is; the cache and the stored objects are
  untouched either way.
\<close>

theorem fetch_failure:
  assumes "configured opts"
      and "getInputHash domain mediaId eventContentFile opts = Inr k"
      and "fetch_r rs = Inl (statusCode, msg)"
      and "generateReport domain mediaId eventContentFile opts rs w = (r, w')"
  shows "r = Inl (if statusCode = None \<or> statusCode = Some 0 then External statusCode msg
                  else ClientError 502 ''Failed to get requested URL'') \<and>
         resultCache w' = resultCache w \<and> heap w' = heap w"
  using assms
  by (auto simp: generateReport_def underscore_generateReport_def configured_def getInputHash_def
                 no_statusCode_def emit_def Let_def
           split: sum.splits option.splits prod.splits if_splits)

theorem fetch_failure_witness:
  "fst (generateReport (Some ''example.org'') (Some ''abc123'') JUndefined example_opts
          (example_responses\<lparr>fetch_r := Inl (Some 404, ''Not Found'')\<rparr>) empty_world)
     = Inl (ClientError 502 ''Failed to get requested URL'') \<and>
   fst (generateReport (Some ''example.org'') (Some ''abc123'') JUndefined example_opts
          (example_responses\<lparr>fetch_r := Inl (None, ''ECONNREFUSED'')\<rparr>) empty_world)
     = Inl (External None ''ECONNREFUSED'')"
  using fetch_failure [OF example_configured example_getInputHash _ surjective_pairing,
          of "example_responses\<lparr>fetch_r := Inl (Some 404, ''Not Found'')\<rparr>"
             "Some 404" "''Not Found''" empty_world]
        fetch_failure [OF example_configured example_getInputHash _ surjective_pairing,
          of "example_responses\<lparr>fetch_r := Inl (None, ''ECONNREFUSED'')\<rparr>"
             None "''ECONNREFUSED''" empty_world]
  by simp

text \<open>
  C7. A descriptor with decryption material (a truthy \<^verbatim>\<open>key\<close>) whose decryption throws:
  the decryption is reached when the download has succeeded and the cache has no entry
  under the key; then \<^verbatim>\<open>generateReport\<close> fails with the client error 400, the cache and
  the stored objects are untouched, and \<^verbatim>\<open>getReport\<close> with the same arguments
  afterwards returns \<^verbatim>\<open>{scanned: false}\<close>.
\<close>

theorem decrypt_failure:
  assumes "configured opts"
      and "getInputHash domain mediaId eventContentFile opts = Inr k"
      and "fetch_r rs = Inr hs"
      and "resultCache w k = None"
      and "truthy eventContentFile" and "truthy (get_prop eventContentFile ''key'')"
      and "decrypt_r rs = Some err"
      and "generateReport domain mediaId eventContentFile opts rs w = (r, w')"
  shows "r = Inl (ClientError 400 ''Failed to decrypt file'') \<and>
         resultCache w' = resultCache w \<and> heap w' = heap w \<and>
         (\<exists>f g. DecryptFile f g \<in> set (drop (length (trace w)) (trace w'))) \<and>
         fst (getReport domain mediaId eventContentFile opts w') = Inr NotScanned"
  using assms
  by (auto simp: pipeline_defs getReport_def Let_def
           split: sum.splits option.splits prod.splits if_splits)

theorem decrypt_failure_witness:
  "fst (generateReport None None example_descriptor example_opts
          (example_responses\<lparr>decrypt_r := Some (Error ''bad key'')\<rparr>) empty_world)
     = Inl (ClientError 400 ''Failed to decrypt file'') \<and>
   fst (getReport None None example_descriptor example_opts
          (snd (generateReport None None example_descriptor example_opts
                  (example_responses\<lparr>decrypt_r := Some (Error ''bad key'')\<rparr>) empty_world)))
     = Inr NotScanned"
proof -
  have "fetch_r (example_responses\<lparr>decrypt_r := Some (Error ''bad key'')\<rparr>)
          = Inr [(''content-type'', ''image/png'')]"
    by (simp add: example_responses_def)
  moreover have "resultCache empty_world example_descriptor_key = None"
    by (simp add: empty_world_def)
  moreover have "truthy example_descriptor" "truthy (get_prop example_descriptor ''key'')"
    by (simp_all add: example_descriptor_def)
  moreover have "decrypt_r (example_responses\<lparr>decrypt_r := Some (Error ''bad key'')\<rparr>)
          = Some (Error ''bad key'')"
    by simp
  ultimately show ?thesis
    using decrypt_failure [OF example_configured example_descriptor_getInputHash _ _ _ _ _
            surjective_pairing]
    by blast
qed

section \<open>A report is visible once it is generated\<close>

text \<open>
  C4. When \<^verbatim>\<open>generateReport\<close> completes with a result object, \<^verbatim>\<open>getReport\<close> with the
  same domain, media id, descriptor and options returns \<^verbatim>\<open>scanned: true\<close> with the
  \<^verbatim>\<open>clean\<close> and \<^verbatim>\<open>info\<close> of that object.
\<close>

theorem set_then_get:
  assumes "generateReport domain mediaId eventContentFile opts rs w = (Inr a, w')"
  shows "fst (getReport domain mediaId eventContentFile opts w') =
           Inr (Scanned (clean (heap w' ! a)) (info (heap w' ! a)))"
  using assms
  by (auto simp: pipeline_defs getReport_def Let_def
           split: sum.splits option.splits prod.splits if_splits)

lemmas example_defs = example_opts_def example_responses_def empty_world_def
  media_of_descriptor_def generateHttpUrl_def path_join_def

lemma example_run:
  "generateReport (Some ''example.org'') (Some ''abc123'') JUndefined example_opts
     example_responses empty_world =
   (Inr 0,
    \<lparr>resultCache = [example_key \<mapsto> 0],
     heap = [\<lparr>clean = True, info = ''ok'', exitCode = 0,
              filePath = Some ''/tmp/downloadedFile'',
              headers = Some [(''content-type'', ''image/png'')]\<rparr>],
     dirs = [],
     trace = [ConsoleInfo,
              HttpGet ''https://hs/_matrix/media/v1/download/example.org/abc123''
                ''/tmp/downloadedFile'',
              ConsoleInfo, ExecuteCommand ''scan.sh /tmp/downloadedFile'', ConsoleInfo]\<rparr>)"
  by (simp add: pipeline_defs example_defs example_key_def Let_def)

lemma first_scan_world_eq:
  "first_scan_world =
    \<lparr>resultCache = [example_key \<mapsto> 0],
     heap = [\<lparr>clean = True, info = ''ok'', exitCode = 0,
              filePath = Some ''/tmp/downloadedFile'',
              headers = Some [(''content-type'', ''image/png'')]\<rparr>],
     dirs = [],
     trace = [ConsoleInfo,
              HttpGet ''https://hs/_matrix/media/v1/download/example.org/abc123''
                ''/tmp/downloadedFile'',
              ConsoleInfo, ExecuteCommand ''scan.sh /tmp/downloadedFile'', ConsoleInfo]\<rparr>"
  by (simp add: first_scan_world_def example_run)

theorem set_then_get_witness:
  "fst (getReport (Some ''example.org'') (Some ''abc123'') JUndefined example_opts first_scan_world)
     = Inr (Scanned True ''ok'')"
  using set_then_get [OF example_run] by (simp add: first_scan_world_eq)

section \<open>The life of a cache entry\<close>



























section \<open>Missing options\<close>






section \<open>The temporary directory\<close>

text \<open>
  C5 (as the code has it). When \<^verbatim>\<open>mkdtemp\<close> has created the directory, \<^verbatim>\<open>rimraf\<close> is
  called on it after the wrapped function, whether that returned or threw. If the removal
  succeeds the directory is gone and the caller gets the outcome of the wrapped function;
  if the removal fails the caller gets the error of the removal.
\<close>

theorem withTempDir_cleanup:
  assumes "mkdtemp_r rs = Inr random"
      and "tempDir = template (tempDirectory opts) @ ''/av-'' @ random"
      and "asyncFn (opts\<lparr>tempDirectory := Some tempDir\<rparr>) rs
             ((emit [Mkdtemp (template (tempDirectory opts) @ ''/av-'')] w)
                \<lparr>dirs := tempDir # dirs w\<rparr>)
           = (result, w2)"
      and "withTempDir asyncFn opts rs w = (r, w')"
  shows "trace w' = trace w2 @ [Rimraf tempDir] \<and>
         r = (case rimraf_r rs of None \<Rightarrow> result | Some err \<Rightarrow> Inl err) \<and>
         (rimraf_r rs = None \<longrightarrow> tempDir \<notin> set (dirs w'))"
  using assms
  by (auto simp: withTempDir_def emit_def Let_def
           split: sum.splits option.splits prod.splits if_splits)

lemma example_body_run:
  "scannedDownload_body (Some ''example.org'') (Some ''abc123'') JUndefined workspace_opts
     rs workspace_world = (Inr (), delivered_world)"
  if "fetch_r rs = fetch_r example_responses" "exec_r rs = exec_r example_responses"
     "decrypt_r rs = None"
  using that
  apply (simp add: delivered_world_def)
  apply (simp add: scannedDownload_body_def pipeline_defs workspace_opts_def workspace_world_def
                example_defs headerWhitelist_def Let_def)
  done

theorem withTempDir_cleanup_witness:
  "fst (scannedDownload (Some ''example.org'') (Some ''abc123'') JUndefined example_opts
          example_responses empty_world) = Inr () \<and>
   trace (snd (scannedDownload (Some ''example.org'') (Some ''abc123'') JUndefined example_opts
                 example_responses empty_world))
     = trace delivered_world @ [Rimraf ''/tmp/av-Xk3p9Q''] \<and>
   ''/tmp/av-Xk3p9Q'' \<notin> set (dirs (snd (scannedDownload (Some ''example.org'') (Some ''abc123'')
                                           JUndefined example_opts example_responses empty_world)))"
proof -
  have 1: "mkdtemp_r example_responses = Inr ''Xk3p9Q''" "rimraf_r example_responses = None"
    by (simp_all add: example_responses_def)
  have 2: "''/tmp/av-Xk3p9Q'' = template (tempDirectory example_opts) @ ''/av-'' @ ''Xk3p9Q''"
    by (simp add: example_opts_def)
  have 3: "scannedDownload_body (Some ''example.org'') (Some ''abc123'') JUndefined
             (example_opts\<lparr>tempDirectory := Some ''/tmp/av-Xk3p9Q''\<rparr>) example_responses
             ((emit [Mkdtemp (template (tempDirectory example_opts) @ ''/av-'')] empty_world)
                \<lparr>dirs := ''/tmp/av-Xk3p9Q'' # dirs empty_world\<rparr>)
           = (Inr (), delivered_world)"
    using example_body_run [of example_responses]
    by (simp add: workspace_opts_def workspace_world_def example_responses_def)
       (simp add: example_opts_def empty_world_def)
  show ?thesis
    using withTempDir_cleanup [OF 1(1) 2 3 surjective_pairing [of
            "withTempDir (scannedDownload_body (Some ''example.org'') (Some ''abc123'') JUndefined)
               example_opts example_responses empty_world"]]
    by (simp add: scannedDownload_def 1)
qed

text \<open>
  C5 as stated fails: when the wrapped function returns and the removal fails, the caller
  gets the error of the removal, not the result of the wrapped function.
\<close>

theorem removal_failure_replaces_result:
  "scannedDownload_body (Some ''example.org'') (Some ''abc123'') JUndefined workspace_opts
     rimraf_failure workspace_world = (Inr (), delivered_world) \<and>
   fst (scannedDownload (Some ''example.org'') (Some ''abc123'') JUndefined example_opts
          rimraf_failure empty_world) = Inl (External None ''EBUSY'')"
proof -
  have "scannedDownload_body (Some ''example.org'') (Some ''abc123'') JUndefined workspace_opts
          rimraf_failure workspace_world = (Inr (), delivered_world)"
    by (rule example_body_run) (simp_all add: rimraf_failure_def example_responses_def)
  moreover have "fst (scannedDownload (Some ''example.org'') (Some ''abc123'') JUndefined
          example_opts rimraf_failure empty_world) = Inl (External None ''EBUSY'')"
    by (simp add: scannedDownload_def withTempDir_def rimraf_failure_def example_responses_def
                  Let_def split: prod.splits)
  ultimately show ?thesis by simp
qed

section \<open>At most one execution in flight for a key\<close>

lemma registry_ok_idle: "registry_ok idle"
  by (simp add: registry_ok_def idle_def)

lemma finished_set_phase [simp]:
  "finished (e\<lparr>phase := p\<rparr>) = (case p of Finished r \<Rightarrow> True | _ \<Rightarrow> False)"
  by (simp add: finished_def)

lemma registry_ok_call:
  assumes "registry_ok c"
  shows "registry_ok (deduplicatePromises getKey (Call args) c)"
proof (cases "getKey args")
  case (Inl e)
  with assms show ?thesis by (simp add: registry_ok_def)
next
  case (Inr k)
  show ?thesis
  proof (cases "ongoing c k")
    case None
    have "i < length (executions c) \<Longrightarrow> \<not> finished (executions c ! i) \<Longrightarrow>
            exec_key (executions c ! i) \<noteq> k" for i
      using assms None by (auto simp: registry_ok_def)
    with Inr None assms show ?thesis
      unfolding registry_ok_def
      by (simp add: nth_append finished_def less_Suc_eq)
  next
    case (Some i)
    with Inr assms show ?thesis by (simp add: registry_ok_def)
  qed
qed

lemma registry_ok_settle:
  assumes "registry_ok c"
  shows "registry_ok (deduplicatePromises getKey (Settle i r) c)"
proof (cases "i < length (executions c) \<and> phase (executions c ! i) = Running")
  case False
  with assms show ?thesis by auto
next
  case True
  then have nf: "\<not> finished (executions c ! i)" by (simp add: finished_def)
  have "finished ((executions c)[i := (executions c ! i)\<lparr>phase := Settled r\<rparr>] ! j)
          = finished (executions c ! j)"
       "exec_key ((executions c)[i := (executions c ! i)\<lparr>phase := Settled r\<rparr>] ! j)
          = exec_key (executions c ! j)"
    if "j < length (executions c)" for j
    using that nf by (cases "i = j"; simp)+
  with True assms show ?thesis
    unfolding registry_ok_def by (simp add: set_phase_def)
qed

lemma registry_ok_finally:
  assumes "registry_ok c"
  shows "registry_ok (deduplicatePromises getKey (Finally i) c)"
proof (cases "i < length (executions c) \<and> (\<exists>r. phase (executions c ! i) = Settled r)")
  case False
  with assms show ?thesis by (auto split: phase.splits)
next
  case True
  then obtain r where r: "phase (executions c ! i) = Settled r" and i: "i < length (executions c)"
    by blast
  then have nf: "\<not> finished (executions c ! i)" by (simp add: finished_def)
  with assms i have reg: "ongoing c (exec_key (executions c ! i)) = Some i"
    unfolding registry_ok_def by blast
  let ?xs = "(executions c)[i := (executions c ! i)\<lparr>phase := Finished r\<rparr>]"
  have key: "exec_key (?xs ! j) = exec_key (executions c ! j)" if "j < length (executions c)" for j
    using that by (cases "i = j"; simp)
  have fin: "finished (?xs ! j) \<longleftrightarrow> j = i \<or> finished (executions c ! j)"
    if "j < length (executions c)" for j
    using that by (cases "i = j"; simp)
  have other: "exec_key (executions c ! j) \<noteq> exec_key (executions c ! i)"
    if "j < length (executions c)" "j \<noteq> i" "\<not> finished (executions c ! j)" for j
  proof
    assume eq: "exec_key (executions c ! j) = exec_key (executions c ! i)"
    from assms that have "ongoing c (exec_key (executions c ! j)) = Some j"
      unfolding registry_ok_def by blast
    with eq reg that show False by simp
  qed
  have "deduplicatePromises getKey (Finally i) c =
          c\<lparr>executions := ?xs, ongoing := (ongoing c)(exec_key (executions c ! i) := None)\<rparr>"
    using r i by (simp add: set_phase_def)
  moreover have "registry_ok \<dots>"
    unfolding registry_ok_def
  proof (rule conjI; intro allI impI)
    fix k j assume "ongoing (c\<lparr>executions := ?xs,
        ongoing := (ongoing c)(exec_key (executions c ! i) := None)\<rparr>) k = Some j"
    then have k: "k \<noteq> exec_key (executions c ! i)" and j: "ongoing c k = Some j"
      by (auto split: if_splits)
    with assms have *: "j < length (executions c)" "exec_key (executions c ! j) = k"
      "\<not> finished (executions c ! j)"
      unfolding registry_ok_def by blast+
    with k have "j \<noteq> i" by auto
    with * show "j < length (executions (c\<lparr>executions := ?xs,
        ongoing := (ongoing c)(exec_key (executions c ! i) := None)\<rparr>)) \<and>
      exec_key (executions (c\<lparr>executions := ?xs,
        ongoing := (ongoing c)(exec_key (executions c ! i) := None)\<rparr>) ! j) = k \<and>
      \<not> finished (executions (c\<lparr>executions := ?xs,
        ongoing := (ongoing c)(exec_key (executions c ! i) := None)\<rparr>) ! j)"
      by (simp add: key fin)
  next
    fix j assume "j < length (executions (c\<lparr>executions := ?xs,
        ongoing := (ongoing c)(exec_key (executions c ! i) := None)\<rparr>))"
      and "\<not> finished (executions (c\<lparr>executions := ?xs,
        ongoing := (ongoing c)(exec_key (executions c ! i) := None)\<rparr>) ! j)"
    then have j: "j < length (executions c)" "j \<noteq> i" "\<not> finished (executions c ! j)"
      by (auto simp: fin)
    with assms have "ongoing c (exec_key (executions c ! j)) = Some j"
      unfolding registry_ok_def by blast
    with j other [OF j] show "ongoing (c\<lparr>executions := ?xs,
        ongoing := (ongoing c)(exec_key (executions c ! i) := None)\<rparr>)
        (exec_key (executions (c\<lparr>executions := ?xs,
        ongoing := (ongoing c)(exec_key (executions c ! i) := None)\<rparr>) ! j)) = Some j"
      by (simp add: key)
  qed
  ultimately show ?thesis by simp
qed

lemma registry_ok_step:
  assumes "registry_ok c"
  shows "registry_ok (deduplicatePromises getKey s c)"
  using assms
  by (cases s) (simp_all only: registry_ok_call registry_ok_settle registry_ok_finally)

lemma registry_ok_run: "registry_ok c \<Longrightarrow> registry_ok (run_steps getKey steps c)"
  unfolding run_steps_def
  by (induction steps arbitrary: c) (simp_all add: registry_ok_step)


lemma registry_ok_reachable: "registry_ok (run_steps getKey steps idle)"
  by (simp add: registry_ok_run registry_ok_idle)

lemma run_steps_simps [simp]:
  "run_steps getKey [] c = c"
  "run_steps getKey (s # steps) c = run_steps getKey steps (deduplicatePromises getKey s c)"
  by (simp_all add: run_steps_def)

lemma in_flight_registered:
  assumes "registry_ok c" and "i \<in> set (in_flight c k)"
  shows "ongoing c k = Some i"
proof -
  from assms(2) have "i < length (executions c)" "exec_key (executions c ! i) = k"
    "phase (executions c ! i) = Running"
    by (auto simp: in_flight_def)
  moreover from this have "\<not> finished (executions c ! i)" by (simp add: finished_def)
  ultimately show ?thesis using assms(1) unfolding registry_ok_def by blast
qed

lemma at_most_one_in_flight:
  assumes "registry_ok c"
  shows "length (in_flight c k) \<le> 1"
proof -
  have "set (in_flight c k) \<subseteq> {i. ongoing c k = Some i}"
    using in_flight_registered [OF assms] by blast
  also have "\<dots> \<subseteq> {the (ongoing c k)}" by auto
  finally have "card (set (in_flight c k)) \<le> card {the (ongoing c k)}"
    by (intro card_mono) simp_all
  moreover have "distinct (in_flight c k)" by (simp add: in_flight_def)
  ultimately show ?thesis by (simp add: distinct_card)
qed

lemma registration_step:
  assumes "registry_ok c" and "ongoing c k = Some i" and "s \<noteq> Finally i"
  shows "ongoing (deduplicatePromises getKey s c) k = Some i"
proof (cases s)
  case (Call args)
  with assms show ?thesis by (auto split: sum.splits option.splits)
next
  case (Settle j r)
  with assms show ?thesis by (simp add: set_phase_def)
next
  case (Finally j)
  with assms have ji: "j \<noteq> i" by simp
  show ?thesis
  proof (cases "j < length (executions c) \<and> (\<exists>r. phase (executions c ! j) = Settled r)")
    case False
    with Finally assms show ?thesis by (auto split: phase.splits)
  next
    case True
    then have "\<not> finished (executions c ! j)" by (auto simp: finished_def)
    with True assms(1) have "ongoing c (exec_key (executions c ! j)) = Some j"
      unfolding registry_ok_def by blast
    with assms(2) ji have "exec_key (executions c ! j) \<noteq> k" by auto
    with Finally True assms(2) show ?thesis by (auto simp: set_phase_def)
  qed
qed

lemma registration_persists:
  assumes "registry_ok c" and "ongoing c k = Some i" and "Finally i \<notin> set steps"
  shows "ongoing (run_steps getKey steps c) k = Some i"
  using assms
proof (induction steps arbitrary: c)
  case Nil
  then show ?case by simp
next
  case (Cons s steps)
  from Cons.prems have s: "s \<noteq> Finally i" and steps: "Finally i \<notin> set steps" by auto
  have "registry_ok (deduplicatePromises getKey s c)"
    using Cons.prems(1) by (rule registry_ok_step)
  moreover have "ongoing (deduplicatePromises getKey s c) k = Some i"
    using Cons.prems(1,2) s by (rule registration_step)
  ultimately show ?case using steps by (simp add: Cons.IH)
qed

lemma call_registers:
  assumes "getKey args = Inr k" and "last (awaited (deduplicatePromises getKey (Call args) c)) = Inr i"
  shows "ongoing (deduplicatePromises getKey (Call args) c) k = Some i"
  using assms by (auto split: option.splits)

text \<open>
  C1. In every state the wrapper reaches from \<^verbatim>\<open>ongoing = {}\<close>, by any calls, settlements
  and callbacks in any order:
  \<^item> under every key at most one execution of \<^verbatim>\<open>asyncFn\<close> is in flight;
  \<^item> when a call with key \<open>k\<close> awaits the execution \<open>i\<close>, every call with key \<open>k\<close> made before
    the callback of \<open>i\<close> runs awaits \<open>i\<close> too and starts no execution;
  \<^item> the callback of a settled execution deletes its key, and the next call with that key
    starts a new execution;
  \<^item> a call that awaits an execution gets the outcome of that execution.
  For \<^verbatim>\<open>generateReport\<close>, \<open>getKey\<close> is \<open>generateReport_key\<close> (that is, \<^verbatim>\<open>getInputHash\<close>) and the
  executions are those of \<^verbatim>\<open>_generateReport\<close>.
\<close>

theorem single_flight:
  assumes "c = run_steps getKey steps idle"
  shows "length (in_flight c k) \<le> 1 \<and>
         (getKey a1 = Inr k \<and> getKey a2 = Inr k \<and>
          last (awaited (deduplicatePromises getKey (Call a1) c)) = Inr i \<and>
          Finally i \<notin> set later \<and>
          c2 = run_steps getKey later (deduplicatePromises getKey (Call a1) c) \<longrightarrow>
            deduplicatePromises getKey (Call a2) c2 = c2\<lparr>awaited := awaited c2 @ [Inr i]\<rparr>) \<and>
         (j < length (executions c) \<and> phase (executions c ! j) = Settled r \<and>
          getKey a3 = Inr (exec_key (executions c ! j)) \<and>
          c3 = deduplicatePromises getKey (Finally j) c \<longrightarrow>
            ongoing c3 (exec_key (executions c ! j)) = None \<and>
            phase (executions c3 ! j) = Finished r \<and>
            deduplicatePromises getKey (Call a3) c3 =
              c3\<lparr>executions := executions c3 @
                     [\<lparr>exec_key = exec_key (executions c ! j), exec_args = a3, phase = Running\<rparr>],
                  ongoing := (ongoing c3)(exec_key (executions c ! j) \<mapsto> length (executions c)),
                  awaited := awaited c3 @ [Inr (length (executions c))]\<rparr>) \<and>
         (awaited c ! n = Inr i' \<and> phase (executions c ! i') = Finished r' \<longrightarrow>
            outcome_of_call c n = Some r')"
proof (intro conjI impI)
  have ok: "registry_ok c" using assms by (simp add: registry_ok_reachable)
  show "length (in_flight c k) \<le> 1" using ok by (rule at_most_one_in_flight)
  {
    assume *: "getKey a1 = Inr k \<and> getKey a2 = Inr k \<and>
          last (awaited (deduplicatePromises getKey (Call a1) c)) = Inr i \<and>
          Finally i \<notin> set later \<and>
          c2 = run_steps getKey later (deduplicatePromises getKey (Call a1) c)"
    let ?c1 = "deduplicatePromises getKey (Call a1) c"
    have "registry_ok ?c1" using ok by (rule registry_ok_step)
    moreover have "ongoing ?c1 k = Some i" using * by (intro call_registers) auto
    ultimately have "ongoing c2 k = Some i" using * by (simp add: registration_persists)
    with * show "deduplicatePromises getKey (Call a2) c2 = c2\<lparr>awaited := awaited c2 @ [Inr i]\<rparr>"
      by simp
  }
  {
    assume *: "j < length (executions c) \<and> phase (executions c ! j) = Settled r \<and>
          getKey a3 = Inr (exec_key (executions c ! j)) \<and>
          c3 = deduplicatePromises getKey (Finally j) c"
    then have c3: "c3 = (set_phase j (Finished r) c)
                          \<lparr>ongoing := (ongoing c)(exec_key (executions c ! j) := None)\<rparr>"
      by simp
    then show "ongoing c3 (exec_key (executions c ! j)) = None" by simp
    from c3 * show "phase (executions c3 ! j) = Finished r" by (simp add: set_phase_def)
    from c3 * show "deduplicatePromises getKey (Call a3) c3 =
              c3\<lparr>executions := executions c3 @
                     [\<lparr>exec_key = exec_key (executions c ! j), exec_args = a3, phase = Running\<rparr>],
                  ongoing := (ongoing c3)(exec_key (executions c ! j) \<mapsto> length (executions c)),
                  awaited := awaited c3 @ [Inr (length (executions c))]\<rparr>"
      by (simp add: set_phase_def)
  }
  {
    assume "awaited c ! n = Inr i' \<and> phase (executions c ! i') = Finished r'"
    then show "outcome_of_call c n = Some r'" by (simp add: outcome_of_call_def)
  }
qed

lemma example_args_key: "generateReport_key example_args = Inr example_key"
  by (simp add: generateReport_key_def example_args_def example_getInputHash)

lemma one_settled_eq:
  "one_settled =
     \<lparr>ongoing = [example_key \<mapsto> 0],
      executions = [\<lparr>exec_key = example_key, exec_args = example_args, phase = Settled (Inr 0)\<rparr>],
      awaited = [Inr 0, Inr 0]\<rparr>"
  by (simp add: one_settled_def idle_def example_args_key set_phase_def)

theorem single_flight_witness:
  "length (in_flight one_settled example_key) \<le> 1 \<and>
   deduplicatePromises generateReport_key (Call example_args)
       (deduplicatePromises generateReport_key (Call example_args) one_settled)
     = one_settled\<lparr>awaited := [Inr 0, Inr 0, Inr 0, Inr 0]\<rparr> \<and>
   ongoing (deduplicatePromises generateReport_key (Finally 0) one_settled) example_key = None \<and>
   executions (deduplicatePromises generateReport_key (Call example_args)
                 (deduplicatePromises generateReport_key (Finally 0) one_settled))
     = [\<lparr>exec_key = example_key, exec_args = example_args, phase = Finished (Inr 0)\<rparr>,
        \<lparr>exec_key = example_key, exec_args = example_args, phase = Running\<rparr>] \<and>
   outcome_of_call (deduplicatePromises generateReport_key (Finally 0) one_settled) 1 = Some (Inr 0)"
proof -
  have 1: "last (awaited (deduplicatePromises generateReport_key (Call example_args) one_settled))
             = Inr 0"
    by (simp add: one_settled_eq example_args_key)
  have 2: "0 < length (executions one_settled) \<and>
           phase (executions one_settled ! 0) = Settled (Inr 0) \<and>
           generateReport_key example_args = Inr (exec_key (executions one_settled ! 0))"
    by (simp add: one_settled_eq example_args_key)
  have 3: "deduplicatePromises generateReport_key (Finally 0) one_settled =
             run_steps generateReport_key
               [Call example_args, Call example_args, Settle 0 (Inr 0), Finally 0] idle"
    by (simp add: one_settled_def run_steps_def)
  have 4: "awaited (deduplicatePromises generateReport_key (Finally 0) one_settled) ! 1 = Inr 0 \<and>
           phase (executions (deduplicatePromises generateReport_key (Finally 0) one_settled) ! 0)
             = Finished (Inr 0)"
    by (simp add: one_settled_eq set_phase_def)
  show ?thesis
    using single_flight [OF one_settled_def, of example_key example_args example_args 0 "[]" _ 0
            "Inr 0" example_args]
          single_flight [OF 3, of example_key _ _ _ _ _ _ _ _ _ 1 0 "Inr 0"]
          1 2 4 example_args_key
    by (simp add: one_settled_eq set_phase_def)
qed

section \<open>Result keys tell descriptors apart\<close>

subsection \<open>\<^verbatim>\<open>JSON.stringify\<close> is injective on JSON values\<close>

































subsection \<open>Keys\<close>









end
